theory Spec2Isabelle
  imports Complex_Main "HOL-Library.Multiset" "HOL-Library.Char_ord" "HOL-Library.List_Lexorder"
begin

section \<open>Reading Habit Tracker: the store, the calendar and the statistics of app.py\<close>

text \<open>
  The program is a thin layer of Python over SQL queries on one table,
  \<open>reading_sessions\<close>. The model keeps the table as the list of its rows in rowid order,
  the clock (\<open>datetime.now()\<close>) as an argument of every operation that reads it, and
  every exception of the Python code as a value of \<open>pyerr\<close>.

  Two things are outside the model and are said here once. The engine's INTEGER and
  Python's \<open>int\<close> are both the unbounded \<open>int\<close>. Floating point is not modelled: where
  the code rounds a quotient with \<open>round(x, 1)\<close> the model returns the exact quotient
  under the constructor \<open>Round1\<close>.
\<close>

subsection \<open>Exceptions\<close>

datatype pyerr =
    KeyError string
  | TypeError
  | ValueError
  | OverflowError
  | IntegrityError
  | ProgrammingError

subsection \<open>The calendar of \<open>datetime\<close>\<close>

text \<open>
  Only the date part of \<open>datetime.now()\<close> is ever used (every use goes through
  \<open>strftime('%Y-%m-%d')\<close>, \<open>weekday()\<close>, \<open>replace(day=1)\<close> or \<open>.days\<close> of a
  difference with a midnight), so a datetime is its year, month and day.
  The range of the type is 0001-01-01 to 9999-12-31.
\<close>

datatype pydate = Date (year: nat) (month: nat) (day: nat)

definition is_leap :: "nat \<Rightarrow> bool" where
  "is_leap y = (y mod 4 = 0 \<and> (y mod 100 \<noteq> 0 \<or> y mod 400 = 0))"

definition days_in_month :: "nat \<Rightarrow> nat \<Rightarrow> nat" where
  "days_in_month y m =
     (if m = 2 then (if is_leap y then 29 else 28)
      else if m = 4 \<or> m = 6 \<or> m = 9 \<or> m = 11 then 30 else 31)"

definition valid_date :: "pydate \<Rightarrow> bool" where
  "valid_date d =
     (1 \<le> year d \<and> year d \<le> 9999 \<and> 1 \<le> month d \<and> month d \<le> 12 \<and>
      1 \<le> day d \<and> day d \<le> days_in_month (year d) (month d))"

text \<open>\<open>d - timedelta(days=1)\<close>: the day before, OverflowError below 0001-01-01.\<close>

definition prev_day :: "pydate \<Rightarrow> pyerr + pydate" where
  "prev_day d =
     (if 1 < day d then Inr (Date (year d) (month d) (day d - 1))
      else if 1 < month d
        then Inr (Date (year d) (month d - 1) (days_in_month (year d) (month d - 1)))
      else if 1 < year d then Inr (Date (year d - 1) 12 31)
      else Inl OverflowError)"

text \<open>\<open>d - timedelta(days=n)\<close> for \<open>n \<ge> 0\<close>.\<close>

fun minus_days :: "pydate \<Rightarrow> nat \<Rightarrow> pyerr + pydate" where
  "minus_days d 0 = Inr d"
| "minus_days d (Suc n) =
     (case prev_day d of Inl e \<Rightarrow> Inl e | Inr p \<Rightarrow> minus_days p n)"

text \<open>\<open>strftime('%Y-%m-%d')\<close>, with the zero padding of the documentation.\<close>

definition digit_char :: "nat \<Rightarrow> char" where
  "digit_char n = char_of (48 + n mod 10)"

definition pad2 :: "nat \<Rightarrow> string" where
  "pad2 n = [digit_char (n div 10), digit_char n]"

definition pad4 :: "nat \<Rightarrow> string" where
  "pad4 n = [digit_char (n div 1000), digit_char (n div 100), digit_char (n div 10), digit_char n]"

definition strftime_ymd :: "pydate \<Rightarrow> string" where
  "strftime_ymd d = pad4 (year d) @ ''-'' @ pad2 (month d) @ ''-'' @ pad2 (day d)"

subsection \<open>The table \<open>reading_sessions\<close>\<close>

text \<open>
  A value of the engine is NULL, an integer or a text. The column \<open>date\<close> is TEXT NOT
  NULL and \<open>book_title\<close>, \<open>notes\<close> are TEXT, so they hold texts (or NULL);
  \<open>pages_read\<close> and \<open>reading_time\<close> have INTEGER affinity, which keeps a text that is
  not a number as a text.
\<close>

datatype sqlval = SNull | SInt int | SText string

record row =
  row_id :: nat
  date :: string
  pages_read :: sqlval
  book_title :: "string option"
  session_notes :: "string option"
  reading_time :: sqlval
  created_at :: string

text \<open>
  The integer a value adds to SUM. The engine adds the numeric prefix of a text as a
  REAL; the model has no REAL, so the statements about sums are made for tables whose
  \<open>pages_read\<close> are integers (\<open>int_pages\<close>), where this is the engine's SUM.
\<close>

fun pages_of :: "sqlval \<Rightarrow> int" where
  "pages_of (SInt n) = n"
| "pages_of _ = 0"



text \<open>\<open>SELECT SUM(pages_read) FROM reading_sessions WHERE ...\<close>: NULL on no row.\<close>

definition sum_pages :: "(row \<Rightarrow> bool) \<Rightarrow> row list \<Rightarrow> int option" where
  "sum_pages P rows =
     (case filter P rows of [] \<Rightarrow> None
      | r # rs \<Rightarrow> Some (sum_list (map (\<lambda>x. pages_of (pages_read x)) (r # rs))))"

text \<open>\<open>fetchone()[0] or 0\<close>: None and 0 are both falsy.\<close>

definition or0 :: "int option \<Rightarrow> int" where
  "or0 v = (case v of None \<Rightarrow> 0 | Some n \<Rightarrow> (if n = 0 then 0 else n))"

subsection \<open>\<open>calculate_reading_streak\<close>\<close>

definition day_pages :: "row list \<Rightarrow> pydate \<Rightarrow> int" where
  "day_pages rows d = or0 (sum_pages (\<lambda>r. date r = strftime_ymd d) rows)"

function streak_loop :: "row list \<Rightarrow> pydate \<Rightarrow> int \<Rightarrow> pyerr + int" where
  "streak_loop rows current_date streak =
     (if day_pages rows current_date > 0
      then (case prev_day current_date of
              Inl e \<Rightarrow> Inl e
            | Inr p \<Rightarrow> streak_loop rows p (streak + 1))
      else Inr streak)"
  by pat_completeness auto
termination
  by (relation "measures [\<lambda>(rows, d, s). year d, \<lambda>(rows, d, s). month d, \<lambda>(rows, d, s). day d]")
     (auto simp: prev_day_def split: if_splits)

definition calculate_reading_streak :: "row list \<Rightarrow> pydate \<Rightarrow> pyerr + int" where
  "calculate_reading_streak rows today = streak_loop rows today 0"



subsection \<open>More of the calendar: ordinals, \<open>weekday()\<close>, \<open>strptime\<close>\<close>

text \<open>
  \<open>toordinal()\<close>: 0001-01-01 is day 1. \<open>weekday()\<close> is \<open>(toordinal() + 6) % 7\<close>,
  Monday 0.
\<close>

definition days_before_year :: "nat \<Rightarrow> int" where
  "days_before_year y =
     (let y1 = int y - 1 in y1 * 365 + y1 div 4 - y1 div 100 + y1 div 400)"

definition days_before_month :: "nat \<Rightarrow> nat \<Rightarrow> int" where
  "days_before_month y m = int (sum_list (map (days_in_month y) [1..<m]))"

definition toordinal :: "pydate \<Rightarrow> int" where
  "toordinal d = days_before_year (year d) + days_before_month (year d) (month d) + int (day d)"

definition weekday :: "pydate \<Rightarrow> nat" where
  "weekday d = nat ((toordinal d + 6) mod 7)"

text \<open>
  \<open>datetime.strptime(s, '%Y-%m-%d')\<close>. The directive \<open>%Y\<close> takes four digits,
  \<open>%m\<close> takes \<open>1[0-2]|0[1-9]|[1-9]\<close> and \<open>%d\<close> takes
  \<open>3[01]|[12]\d|0[1-9]|[1-9]| [1-9]\<close>; the whole text must be used, and the fields
  must be a date of the calendar. Every failure is a ValueError.
\<close>

definition is_digit :: "char \<Rightarrow> bool" where
  "is_digit c = (CHR ''0'' \<le> c \<and> c \<le> CHR ''9'')"

definition digit_val :: "char \<Rightarrow> nat" where
  "digit_val c = of_char c - 48"

definition is_digit19 :: "char \<Rightarrow> bool" where
  "is_digit19 c = (CHR ''1'' \<le> c \<and> c \<le> CHR ''9'')"

fun month_tok :: "string \<Rightarrow> (nat \<times> string) option" where
  "month_tok (a # b # cs) =
     (if a = CHR ''1'' \<and> (b = CHR ''0'' \<or> b = CHR ''1'' \<or> b = CHR ''2'')
        then Some (10 + digit_val b, cs)
      else if a = CHR ''0'' \<and> is_digit19 b then Some (digit_val b, cs)
      else if is_digit19 a then Some (digit_val a, b # cs)
      else None)"
| "month_tok [a] = (if is_digit19 a then Some (digit_val a, []) else None)"
| "month_tok [] = None"

fun day_tok :: "string \<Rightarrow> nat option" where
  "day_tok [a] = (if is_digit19 a then Some (digit_val a) else None)"
| "day_tok [a, b] =
     (if a = CHR ''3'' \<and> (b = CHR ''0'' \<or> b = CHR ''1'') then Some (30 + digit_val b)
      else if (a = CHR ''1'' \<or> a = CHR ''2'') \<and> is_digit b
        then Some (10 * digit_val a + digit_val b)
      else if (a = CHR ''0'' \<or> a = CHR '' '') \<and> is_digit19 b then Some (digit_val b)
      else None)"
| "day_tok _ = None"

definition strptime_ymd :: "string \<Rightarrow> pyerr + pydate" where
  "strptime_ymd s =
     (case s of
        y1 # y2 # y3 # y4 # sep # rest \<Rightarrow>
          if is_digit y1 \<and> is_digit y2 \<and> is_digit y3 \<and> is_digit y4 \<and> sep = CHR ''-''
          then (case month_tok rest of
                  Some (m, sep2 # rest2) \<Rightarrow>
                    if sep2 = CHR ''-''
                    then (case day_tok rest2 of
                            Some dd \<Rightarrow>
                              (let d = Date (1000 * digit_val y1 + 100 * digit_val y2 +
                                             10 * digit_val y3 + digit_val y4) m dd
                               in if valid_date d then Inr d else Inl ValueError)
                          | None \<Rightarrow> Inl ValueError)
                    else Inl ValueError
                | _ \<Rightarrow> Inl ValueError)
          else Inl ValueError
      | _ \<Rightarrow> Inl ValueError)"

subsection \<open>Requests and the binding of parameters\<close>

text \<open>
  \<open>request.json\<close> is a JSON value; its numbers are the integers here. A JSON object
  is the list of its members in the order of the text, and Python's dict keeps the last
  value of a repeated key.
\<close>

datatype json =
    JNull
  | JBool bool
  | JInt int
  | JStr string
  | JArr "json list"
  | JObj "(string \<times> json) list"

definition dict_get :: "(string \<times> json) list \<Rightarrow> string \<Rightarrow> json option" where
  "dict_get kvs k = map_of (rev kvs) k"

text \<open>\<open>data[k]\<close>: KeyError on a dict without the key, TypeError on what is not a dict.\<close>

fun subscript :: "json \<Rightarrow> string \<Rightarrow> pyerr + json" where
  "subscript (JObj kvs) k = (case dict_get kvs k of None \<Rightarrow> Inl (KeyError k) | Some v \<Rightarrow> Inr v)"
| "subscript _ k = Inl TypeError"

text \<open>\<open>data.get(k, default)\<close>, called on a dict only.\<close>

fun get_default :: "json \<Rightarrow> string \<Rightarrow> json \<Rightarrow> json" where
  "get_default (JObj kvs) k dflt = (case dict_get kvs k of None \<Rightarrow> dflt | Some v \<Rightarrow> v)"
| "get_default _ k dflt = dflt"

text \<open>
  The values \<open>sqlite3\<close> binds: None, int (and bool, an int), str. A list or a dict is
  refused with ProgrammingError.
\<close>

fun bind_param :: "json \<Rightarrow> pyerr + sqlval" where
  "bind_param JNull = Inr SNull"
| "bind_param (JBool b) = Inr (SInt (if b then 1 else 0))"
| "bind_param (JInt n) = Inr (SInt n)"
| "bind_param (JStr s) = Inr (SText s)"
| "bind_param (JArr xs) = Inl ProgrammingError"
| "bind_param (JObj kvs) = Inl ProgrammingError"

text \<open>The decimal text of an integer, for a number stored in a TEXT column.\<close>

fun nat_digits :: "nat \<Rightarrow> string" where
  "nat_digits n = (if n < 10 then [digit_char n] else nat_digits (n div 10) @ [digit_char n])"

declare nat_digits.simps [simp del]

definition int_text :: "int \<Rightarrow> string" where
  "int_text n = (if n < 0 then CHR ''-'' # nat_digits (nat (- n)) else nat_digits (nat n))"

text \<open>
  INTEGER affinity turns a text that is an integer literal (a sign, digits, blanks around)
  into the integer and keeps every other text. The engine also converts a text that is a
  real literal, to a REAL; the model has no REAL and keeps such a text.
\<close>

definition sql_space :: "char \<Rightarrow> bool" where
  "sql_space c = (c = CHR '' '' \<or> (9 \<le> (of_char c :: nat) \<and> (of_char c :: nat) \<le> 13))"

definition digits_value :: "string \<Rightarrow> int" where
  "digits_value ds = foldl (\<lambda>acc c. 10 * acc + int (digit_val c)) 0 ds"

definition unsigned_literal :: "string \<Rightarrow> int option" where
  "unsigned_literal s = (if s \<noteq> [] \<and> list_all is_digit s then Some (digits_value s) else None)"

definition integer_literal :: "string \<Rightarrow> int option" where
  "integer_literal s =
     (let t = rev (dropWhile sql_space (rev (dropWhile sql_space s)))
      in case t of
           [] \<Rightarrow> None
         | c # cs \<Rightarrow>
             if c = CHR ''-'' then map_option uminus (unsigned_literal cs)
             else if c = CHR ''+'' then unsigned_literal cs
             else unsigned_literal t)"

fun integer_affinity :: "sqlval \<Rightarrow> sqlval" where
  "integer_affinity (SText s) = (case integer_literal s of Some n \<Rightarrow> SInt n | None \<Rightarrow> SText s)"
| "integer_affinity v = v"

fun text_affinity :: "sqlval \<Rightarrow> string option" where
  "text_affinity SNull = None"
| "text_affinity (SInt n) = Some (int_text n)"
| "text_affinity (SText s) = Some s"

subsection \<open>The INSERT statement\<close>

text \<open>
  AUTOINCREMENT gives the row an id above every id used so far; no row is ever deleted,
  so that is one more than the largest id of the table. \<open>created_at\<close> is the engine's
  CURRENT_TIMESTAMP, an argument here. The NOT NULL columns refuse NULL with
  IntegrityError.
\<close>

definition next_id :: "row list \<Rightarrow> nat" where
  "next_id rows = Suc (fold max (map row_id rows) 0)"

definition insert_session ::
  "sqlval \<Rightarrow> sqlval \<Rightarrow> sqlval \<Rightarrow> sqlval \<Rightarrow> sqlval \<Rightarrow> string \<Rightarrow> row list \<Rightarrow> pyerr + (nat \<times> row list)" where
  "insert_session d p b n t now rows =
     (case text_affinity d of
        None \<Rightarrow> Inl IntegrityError
      | Some dt \<Rightarrow>
          if integer_affinity p = SNull then Inl IntegrityError
          else Inr (next_id rows,
                    rows @ [\<lparr>row_id = next_id rows, date = dt, pages_read = integer_affinity p,
                             book_title = text_affinity b, session_notes = text_affinity n,
                             reading_time = integer_affinity t, created_at = now\<rparr>]))"

subsection \<open>\<open>log_reading\<close>, the write endpoint\<close>

text \<open>
  The body of the \<open>try\<close> evaluates the five arguments from left to right, binds them in
  that order and runs the INSERT; \<open>except Exception\<close> turns whatever was raised into the
  answer \<open>{'success': False, 'error': str(e)}\<close> and leaves the table as it was.
\<close>

definition sum_bind :: "'e + 'a \<Rightarrow> ('a \<Rightarrow> 'e + 'b) \<Rightarrow> 'e + 'b" where
  "sum_bind m f = (case m of Inl e \<Rightarrow> Inl e | Inr v \<Rightarrow> f v)"

datatype response = Success nat | Failure pyerr

definition log_reading :: "json \<Rightarrow> string \<Rightarrow> row list \<Rightarrow> response \<times> row list" where
  "log_reading data now rows =
     (case
        sum_bind (subscript data ''date'') (\<lambda>d.
        sum_bind (subscript data ''pages_read'') (\<lambda>p.
        sum_bind (bind_param d) (\<lambda>dv.
        sum_bind (bind_param p) (\<lambda>pv.
        sum_bind (bind_param (get_default data ''book_title'' (JStr ''''))) (\<lambda>bv.
        sum_bind (bind_param (get_default data ''notes'' (JStr ''''))) (\<lambda>nv.
        sum_bind (bind_param (get_default data ''reading_time'' (JInt 0))) (\<lambda>tv.
        insert_session dv pv bv nv tv now rows)))))))
      of Inl e \<Rightarrow> (Failure e, rows)
       | Inr (session_id, rows') \<Rightarrow> (Success session_id, rows'))"

subsection \<open>\<open>cli_log_reading\<close>\<close>












subsection \<open>\<open>get_stats\<close>\<close>

text \<open>
  \<open>round(x, 1)\<close> of a quotient is floating point: the model keeps the exact quotient
  under \<open>Round1\<close>. The integer 0 of the branches without a quotient is \<open>Round1 0\<close>.
\<close>

datatype rounded = Round1 rat

record stats =
  total_pages :: int
  current_streak :: int
  week_pages :: int
  month_pages :: int
  avg_pages_per_day :: rounded

definition total_pages_query :: "row list \<Rightarrow> int" where
  "total_pages_query rows = or0 (sum_pages (\<lambda>r. True) rows)"

text \<open>\<open>SELECT SUM(pages_read) FROM reading_sessions WHERE date >= ?\<close>, then \<open>or 0\<close>.\<close>

definition pages_since :: "row list \<Rightarrow> string \<Rightarrow> int" where
  "pages_since rows start = or0 (sum_pages (\<lambda>r. start \<le> date r) rows)"

definition week_start :: "pydate \<Rightarrow> pyerr + string" where
  "week_start today = sum_bind (minus_days today (weekday today)) (\<lambda>d. Inr (strftime_ymd d))"

definition month_start :: "pydate \<Rightarrow> string" where
  "month_start today = strftime_ymd (Date (year today) (month today) 1)"

text \<open>\<open>SELECT MIN(date) FROM reading_sessions\<close>: NULL on the empty table.\<close>

definition min_date :: "row list \<Rightarrow> string option" where
  "min_date rows = (case rows of [] \<Rightarrow> None | r # rs \<Rightarrow> Some (fold min (map date rs) (date r)))"

definition avg_pages :: "row list \<Rightarrow> pydate \<Rightarrow> int \<Rightarrow> pyerr + rat" where
  "avg_pages rows today tot =
     (case min_date rows of
        None \<Rightarrow> Inr 0
      | Some first_entry \<Rightarrow>
          if first_entry = [] then Inr 0
          else sum_bind (strptime_ymd first_entry) (\<lambda>f.
            let days_since_start = toordinal today - toordinal f + 1
            in Inr (if days_since_start > 0 then of_int tot / of_int days_since_start else 0)))"

definition get_stats :: "row list \<Rightarrow> pydate \<Rightarrow> pyerr + stats" where
  "get_stats rows today =
     (let tot = total_pages_query rows in
      sum_bind (calculate_reading_streak rows today) (\<lambda>streak.
      sum_bind (week_start today) (\<lambda>ws.
      sum_bind (avg_pages rows today tot) (\<lambda>avg.
      Inr \<lparr>total_pages = tot, current_streak = streak,
           week_pages = pages_since rows ws,
           month_pages = pages_since rows (month_start today),
           avg_pages_per_day = Round1 avg\<rparr>))))"


subsection \<open>\<open>get_chart_data\<close>: the book distribution\<close>





subsection \<open>\<open>get_recent_sessions\<close>\<close>

text \<open>
  ORDER BY date DESC, created_at DESC: \<open>newer a b\<close> says that \<open>a\<close> may stand before
  \<open>b\<close>. Rows equal in both columns stay in rowid order (the engine is free there).
\<close>

definition newer :: "row \<Rightarrow> row \<Rightarrow> bool" where
  "newer a b = (date b < date a \<or> (date a = date b \<and> created_at b \<le> created_at a))"

fun insort_wrt :: "('a \<Rightarrow> 'a \<Rightarrow> bool) \<Rightarrow> 'a \<Rightarrow> 'a list \<Rightarrow> 'a list" where
  "insort_wrt le x [] = [x]"
| "insort_wrt le x (y # ys) = (if le x y then x # y # ys else y # insort_wrt le x ys)"

definition sort_wrt :: "('a \<Rightarrow> 'a \<Rightarrow> bool) \<Rightarrow> 'a list \<Rightarrow> 'a list" where
  "sort_wrt le xs = foldr (insort_wrt le) xs []"

definition recent_rows :: "row list \<Rightarrow> row list" where
  "recent_rows rows = take 10 (sort_wrt newer rows)"

record session_entry =
  entry_date :: string
  entry_pages_read :: sqlval
  entry_book_title :: string
  entry_notes :: string
  entry_reading_time :: sqlval

text \<open>\<open>x or default\<close>: None, the empty text and 0 are falsy.\<close>

definition text_or :: "string option \<Rightarrow> string \<Rightarrow> string" where
  "text_or v dflt = (case v of None \<Rightarrow> dflt | Some t \<Rightarrow> if t = [] then dflt else t)"

definition value_or0 :: "sqlval \<Rightarrow> sqlval" where
  "value_or0 v = (if v = SNull \<or> v = SInt 0 \<or> v = SText [] then SInt 0 else v)"

definition session_json :: "row \<Rightarrow> session_entry" where
  "session_json session =
     \<lparr>entry_date = date session,
      entry_pages_read = pages_read session,
      entry_book_title = text_or (book_title session) ''Unspecified'',
      entry_notes = text_or (session_notes session) [],
      entry_reading_time = value_or0 (reading_time session)\<rparr>"

definition get_recent_sessions :: "row list \<Rightarrow> session_entry list" where
  "get_recent_sessions rows = map session_json (recent_rows rows)"

subsection \<open>\<open>ReadingAnalytics.get_reading_velocity\<close>\<close>






subsection \<open>The loop of the streak, with its iterations counted\<close>




section \<open>Properties\<close>

subsection \<open>The streak\<close>


declare streak_loop.simps [simp del]

lemma streak_loop_stop: "\<not> 0 < day_pages rows d \<Longrightarrow> streak_loop rows d s = Inr s"
  by (subst streak_loop.simps) simp









subsection \<open>The writers\<close>





lemma log_reading_missing_key:
  "dict_get kvs ''date'' = None \<Longrightarrow>
   log_reading (JObj kvs) now rows = (Failure (KeyError ''date''), rows)"
  by (simp add: log_reading_def sum_bind_def)

text \<open>
  C2. A request without \<open>date\<close> is answered \<open>{success: false, error: ...}\<close> (the
  KeyError of \<open>data['date']\<close>) and writes nothing. A request with
  \<open>pages_read = "abc"\<close> is not refused: the text is bound, the INTEGER column keeps
  it as a text, and the answer is \<open>{success: true, session_id: 1}\<close>.
\<close>

theorem log_reading_text_pages_stored:
  "log_reading (JObj [(''pages_read'', JInt 5)]) now rows = (Failure (KeyError ''date''), rows) \<and>
   log_reading (JObj [(''date'', JStr ''2024-01-01''), (''pages_read'', JStr ''abc'')]) now [] =
     (Success 1,
      [\<lparr>row_id = 1, date = ''2024-01-01'', pages_read = SText ''abc'', book_title = Some [],
        session_notes = Some [], reading_time = SInt 0, created_at = now\<rparr>])"
  by (simp add: log_reading_def sum_bind_def dict_get_def insert_session_def next_id_def
      integer_literal_def unsigned_literal_def sql_space_def is_digit_def)








subsection \<open>Sums and insertion\<close>



lemma text_affinity_bind_JStr: "bind_param (JStr d) = Inr dv \<Longrightarrow> text_affinity dv = Some d' \<Longrightarrow> d' = d"
  by auto




subsection \<open>Ordinals and the days before\<close>

lemma days_before_month_Suc:
  "1 \<le> m \<Longrightarrow> days_before_month y (Suc m) = days_before_month y m + int (days_in_month y m)"
  by (simp add: days_before_month_def)

lemma days_before_month_1: "days_before_month y (Suc 0) = 0"
  by (simp add: days_before_month_def)

lemma days_before_month_12:
  "days_before_month y 12 = (if is_leap y then 335 else 334)"
proof -
  have "[1..<12] = [1,2,3,4,5,6,7,8,9,10,11::nat]" by (simp add: upt_conv_Cons)
  then show ?thesis by (simp add: days_before_month_def days_in_month_def)
qed

lemma days_before_year_Suc:
  assumes "1 \<le> y"
  shows "days_before_year (Suc y) = days_before_year y + (if is_leap y then 366 else 365)"
proof -
  obtain z where y: "y = Suc z" using assms by (cases y) auto
  have a: "int (Suc z) div 4 = int (Suc z div 4)" "int (Suc z) div 100 = int (Suc z div 100)"
     "int (Suc z) div 400 = int (Suc z div 400)"
     "int z div 4 = int (z div 4)" "int z div 100 = int (z div 100)" "int z div 400 = int (z div 400)"
    by (simp_all add: zdiv_int)
  have m: "Suc z mod 400 = 0 \<Longrightarrow> Suc z mod 100 = 0" "Suc z mod 100 = 0 \<Longrightarrow> Suc z mod 4 = 0"
    using dvd_trans[of 100 400 "Suc z"] dvd_trans[of 4 100 "Suc z"]
    by (simp_all add: mod_eq_0_iff_dvd)
  have b: "days_before_year (Suc (Suc z)) =
        int (Suc z) * 365 + int (Suc z div 4) - int (Suc z div 100) + int (Suc z div 400)"
    unfolding days_before_year_def Let_def using a by simp
  have c: "days_before_year (Suc z) =
        int z * 365 + int (z div 4) - int (z div 100) + int (z div 400)"
    unfolding days_before_year_def Let_def using a by simp
  show ?thesis unfolding y b c is_leap_def using m
    by (simp add: div_Suc)
qed

lemma days_before_year_nonneg: "1 \<le> y \<Longrightarrow> 0 \<le> days_before_year y"
proof -
  assume "1 \<le> y"
  then have "0 \<le> int y - 1" by simp
  moreover have "(int y - 1) div 100 \<le> (int y - 1) div 4"
    using calculation by (simp add: zdiv_mono2)
  moreover have "0 \<le> (int y - 1) div 400" using calculation by simp
  ultimately show ?thesis unfolding days_before_year_def Let_def
    by (smt (verit) mult_nonneg_nonneg)
qed

lemma days_before_month_nonneg: "0 \<le> days_before_month y m"
  by (simp add: days_before_month_def)

lemma toordinal_pos: "valid_date d \<Longrightarrow> 1 \<le> toordinal d"
  using days_before_year_nonneg[of "year d"] days_before_month_nonneg[of "year d" "month d"]
  by (simp add: valid_date_def toordinal_def)

lemma days_in_month_pos: "1 \<le> days_in_month y m"
  by (simp add: days_in_month_def)

lemma prev_day_valid:
  assumes "valid_date d" and "prev_day d = Inr p"
  shows "valid_date p \<and> toordinal p = toordinal d - 1"
proof -
  have "1 \<le> day d" "1 \<le> month d" "1 \<le> year d"
    using assms(1) by (simp_all add: valid_date_def)
  then consider (a) "1 < day d" | (b) "day d = 1" "1 < month d" | (c) "day d = 1" "month d = 1" "1 < year d"
    | (e) "day d = 1" "month d = 1" "year d = 1"
    by linarith
  then show ?thesis
  proof cases
    case a
    with assms show ?thesis
      by (auto simp: prev_day_def valid_date_def toordinal_def)
  next
    case b
    then have p: "p = Date (year d) (month d - 1) (days_in_month (year d) (month d - 1))"
      using assms(2) by (auto simp: prev_day_def)
    from b have "Suc (month d - 1) = month d" by simp
    with days_before_month_Suc[of "month d - 1" "year d"] b
    have "days_before_month (year d) (month d) =
          days_before_month (year d) (month d - 1) + int (days_in_month (year d) (month d - 1))"
      by simp
    with p b assms(1) show ?thesis
      using days_in_month_pos[of "year d" "month d - 1"]
      by (auto simp: valid_date_def toordinal_def)
  next
    case c
    then have p: "p = Date (year d - 1) 12 31"
      using assms(2) by (auto simp: prev_day_def)
    from c have s: "Suc (year d - 1) = year d" "1 \<le> year d - 1" by simp_all
    from days_before_year_Suc[OF s(2)] s(1)
    have "days_before_year (year d) =
          days_before_year (year d - 1) + (if is_leap (year d - 1) then 366 else 365)"
      by simp
    with p c assms(1) show ?thesis
      by (auto simp: valid_date_def toordinal_def days_before_month_12 days_before_month_1
          days_in_month_def)
  next
    case e
    with assms(2) show ?thesis by (simp add: prev_day_def)
  qed
qed

lemma prev_day_Inl:
  assumes "valid_date d" and "prev_day d = Inl e"
  shows "toordinal d = 1 \<and> e = OverflowError"
proof -
  from assms have "day d = 1" "month d = 1" "year d = 1" "e = OverflowError"
    by (auto simp: prev_day_def valid_date_def split: if_splits)
  then show ?thesis
    by (simp add: toordinal_def days_before_month_def days_before_year_def)
qed

lemma minus_days_valid:
  "valid_date d \<Longrightarrow> int n < toordinal d \<Longrightarrow>
   \<exists>e. minus_days d n = Inr e \<and> valid_date e \<and> toordinal e = toordinal d - int n"
proof (induction n arbitrary: d)
  case 0
  then show ?case by simp
next
  case (Suc n)
  show ?case
  proof (cases "prev_day d")
    case (Inl e)
    with prev_day_Inl[OF Suc.prems(1) Inl] Suc.prems(2) show ?thesis by simp
  next
    case (Inr p)
    from prev_day_valid[OF Suc.prems(1) Inr] Suc.prems(2)
    have "valid_date p" "int n < toordinal p" "toordinal p = toordinal d - 1" by simp_all
    with Suc.IH[of p] Inr show ?thesis by auto
  qed
qed

lemma weekday_less: "valid_date d \<Longrightarrow> int (weekday d) < toordinal d"
  using toordinal_pos[of d] unfolding weekday_def by (simp add: nat_less_iff) presburger

lemma week_start_valid: "valid_date today \<Longrightarrow> \<exists>ws. week_start today = Inr ws"
  using minus_days_valid[OF _ weekday_less, of today]
  by (auto simp: week_start_def sum_bind_def)

text \<open>
  C9. On the empty table \<open>get_stats\<close> returns 0 in every field.
\<close>

theorem empty_store_all_zero:
  assumes "valid_date today"
  shows "get_stats [] today =
           Inr \<lparr>total_pages = 0, current_streak = 0, week_pages = 0, month_pages = 0,
                avg_pages_per_day = Round1 0\<rparr>"
proof -
  obtain ws where ws: "week_start today = Inr ws" using week_start_valid[OF assms] by blast
  have s: "calculate_reading_streak [] today = Inr 0"
    by (simp add: calculate_reading_streak_def streak_loop_stop day_pages_def sum_pages_def or0_def)
  show ?thesis
    by (simp add: get_stats_def ws s sum_bind_def total_pages_query_def pages_since_def
        sum_pages_def or0_def avg_pages_def min_date_def)
qed

theorem empty_store_all_zero_witness:
  "valid_date (Date 2024 3 1) \<and>
   get_stats [] (Date 2024 3 1) =
     Inr \<lparr>total_pages = 0, current_streak = 0, week_pages = 0, month_pages = 0,
          avg_pages_per_day = Round1 0\<rparr>"
proof -
  have v: "valid_date (Date 2024 3 1)" by code_simp
  from empty_store_all_zero[OF v] v show ?thesis by simp
qed

subsection \<open>Termination of the walk\<close>
















subsection \<open>The average per day\<close>













subsection \<open>Recent sessions\<close>

lemma mset_insort_wrt: "mset (insort_wrt le x xs) = add_mset x (mset xs)"
  by (induction xs) auto

lemma mset_sort_wrt: "mset (sort_wrt le xs) = mset xs"
  by (induction xs) (auto simp: sort_wrt_def mset_insort_wrt)

lemma set_insort_wrt: "set (insort_wrt le x xs) = insert x (set xs)"
  by (induction xs) auto

lemma sorted_insort_wrt:
  assumes total: "\<And>a b. le a b \<or> le b a" and trans: "\<And>a b c. le a b \<Longrightarrow> le b c \<Longrightarrow> le a c"
  shows "sorted_wrt le xs \<Longrightarrow> sorted_wrt le (insort_wrt le x xs)"
proof (induction xs)
  case Nil
  then show ?case by simp
next
  case (Cons y ys)
  show ?case
  proof (cases "le x y")
    case True
    with Cons.prems trans show ?thesis by auto
  next
    case False
    with total have "le y x" by blast
    with Cons False show ?thesis by (auto simp: set_insort_wrt)
  qed
qed

lemma sorted_sort_wrt:
  assumes "\<And>a b. le a b \<or> le b a" and "\<And>a b c. le a b \<Longrightarrow> le b c \<Longrightarrow> le a c"
  shows "sorted_wrt le (sort_wrt le xs)"
proof (induction xs)
  case Nil
  then show ?case by (simp add: sort_wrt_def)
next
  case (Cons x xs)
  have "sort_wrt le (x # xs) = insort_wrt le x (sort_wrt le xs)" by (simp add: sort_wrt_def)
  with Cons sorted_insort_wrt[of le, OF assms] show ?case by simp
qed

lemma newer_total: "newer a b \<or> newer b a"
  by (auto simp: newer_def)

lemma newer_trans: "newer a b \<Longrightarrow> newer b c \<Longrightarrow> newer a c"
  by (auto simp: newer_def)

lemma sorted_recent: "sorted_wrt newer (sort_wrt newer rows)"
  using newer_total newer_trans by (rule sorted_sort_wrt)

text \<open>
  C6. \<open>get_recent_sessions\<close> answers with at most 10 entries: the first 10 of the rows
  of the table put in the order date descending, \<open>created_at\<close> descending among equal
  dates. Each entry carries the stored date and pages, and the stored title, with
  "Unspecified" for a title that is NULL or empty. The function only reads the table.
\<close>

theorem recent_sessions_listing:
  "length (get_recent_sessions rows) \<le> 10 \<and>
   get_recent_sessions rows = map session_json (take 10 (sort_wrt newer rows)) \<and>
   mset (sort_wrt newer rows) = mset rows \<and>
   sorted_wrt (\<lambda>a b. date b < date a \<or> (date a = date b \<and> created_at b \<le> created_at a))
     (sort_wrt newer rows) \<and>
   (\<forall>r. entry_date (session_json r) = date r \<and>
        entry_pages_read (session_json r) = pages_read r \<and>
        entry_book_title (session_json r) =
          (case book_title r of
             None \<Rightarrow> ''Unspecified''
           | Some t \<Rightarrow> if t = [] then ''Unspecified'' else t))"
proof -
  have "sorted_wrt (\<lambda>a b. date b < date a \<or> (date a = date b \<and> created_at b \<le> created_at a))
     (sort_wrt newer rows)"
    using sorted_recent[of rows] by (simp add: newer_def[abs_def])
  then show ?thesis
    by (simp add: get_recent_sessions_def recent_rows_def mset_sort_wrt session_json_def text_or_def)
qed

subsection \<open>The book distribution\<close>









subsection \<open>Velocity\<close>







end
